theory Spec2Isabelle
  imports Main "HOL-Library.AList"
begin

section \<open>Organization management backend: data model\<close>

text \<open>
  The service keeps all of its state in MongoDB: a master database with the collections
  \<^verbatim>\<open>organizations\<close> and \<^verbatim>\<open>admin_users\<close>, and one database per organization with a
  \<^verbatim>\<open>users\<close> collection. The model passes that state explicitly. Strings are lists of
  8-bit characters, read as the code units U+0000 to U+00FF of a JavaScript string.
  \<^verbatim>\<open>new Date()\<close> is the parameter \<open>now\<close> (milliseconds), read once per operation.
\<close>

subsection \<open>Object ids\<close>

text \<open>
  An ObjectId is modelled by its numeric value. A string handed in as an id is either the
  24-digit hexadecimal rendering of an ObjectId (\<open>OidHex\<close>) or any other string
  (\<open>NotOid\<close>), on which \<^verbatim>\<open>new ObjectId(s)\<close> throws.
\<close>

type_synonym objectid = nat

datatype id_string = OidHex objectid | NotOid string

definition toString :: "objectid \<Rightarrow> id_string" where
  "toString oid = OidHex oid"

subsection \<open>Errors\<close>

text \<open>
  The code throws \<^verbatim>\<open>Error\<close> objects that differ only in their message; one constructor
  stands for each message. The last four wrap the message of an inner error, as the
  \<^verbatim>\<open>catch\<close> blocks do.
\<close>

datatype jwt_error = Jwt_malformed | Invalid_signature | Jwt_expired

datatype error =
    Fields_required              \<comment> \<open>Organization name, email, and password are required\<close>
  | Invalid_email_format         \<comment> \<open>Invalid email format\<close>
  | Password_too_short           \<comment> \<open>Password must be at least 6 characters\<close>
  | Org_already_exists           \<comment> \<open>Organization with this name already exists\<close>
  | Org_name_required            \<comment> \<open>Organization name is required\<close>
  | Org_not_found                \<comment> \<open>Organization not found\<close>
  | Credentials_required         \<comment> \<open>Email and password are required\<close>
  | Invalid_credentials          \<comment> \<open>Invalid credentials\<close>
  | Invalid_token jwt_error      \<comment> \<open>Invalid token: ...\<close>
  | Invalid_refresh_token_type   \<comment> \<open>Invalid refresh token type\<close>
  | Admin_not_found              \<comment> \<open>Admin not found\<close>
  | Refresh_token_mismatch       \<comment> \<open>Refresh token mismatch\<close>
  | Invalid_object_id            \<comment> \<open>thrown by new ObjectId on a malformed string\<close>
  | Duplicate_key                \<comment> \<open>thrown by the store on a unique index violation\<close>
  | Invalid_db_name              \<comment> \<open>thrown for a database name that is refused\<close>
  | Failed_to_create error       \<comment> \<open>Failed to create organization: ...\<close>
  | Failed_to_update error       \<comment> \<open>Failed to update organization: ...\<close>
  | Failed_to_delete error       \<comment> \<open>Failed to delete organization: ...\<close>
  | Token_refresh_failed error   \<comment> \<open>Token refresh failed: ...\<close>

subsection \<open>Passwords and tokens (auth.js)\<close>

text \<open>
  bcrypt, HMAC signatures and SHA-256 are modelled symbolically: a password hash is the
  pair of salt and key, a signed token is the pair of its claims and the signing key, a
  digest is its input under a constructor. The salt that \<^verbatim>\<open>bcrypt.genSalt\<close> draws is
  a parameter.

  bcrypt does not read the whole password. Its key is the UTF-8 encoding of the password
  followed by a zero byte, and the key schedule reads 72 bytes of it, starting over at
  the front when the key is shorter. Two passwords with the same 72 bytes have the same
  hashes.
\<close>

definition utf8_char :: "char \<Rightarrow> nat list" where
  "utf8_char c =
     (let n = of_char c :: nat
      in if n < 128 then [n] else [192 + n div 64, 128 + n mod 64])"

definition utf8_bytes :: "string \<Rightarrow> nat list" where
  "utf8_bytes s = concat (map utf8_char s)"

text \<open>\<open>key_stream n key rest\<close> reads \<open>n\<close> bytes, first those of \<open>rest\<close>, then the key from
  its front, again and again.\<close>

fun key_stream :: "nat \<Rightarrow> nat list \<Rightarrow> nat list \<Rightarrow> nat list" where
  "key_stream 0 key rest = []"
| "key_stream (Suc n) key [] = (case key of [] \<Rightarrow> [] | k # ks \<Rightarrow> k # key_stream n key ks)"
| "key_stream (Suc n) key (b # bs) = b # key_stream n key bs"

definition bcrypt_key :: "string \<Rightarrow> nat list" where
  "bcrypt_key password = (let key = utf8_bytes password @ [0] in key_stream 72 key key)"

datatype pwhash = Bcrypt string "nat list"

definition hashPassword :: "string \<Rightarrow> string \<Rightarrow> pwhash" where
  "hashPassword salt password = Bcrypt salt (bcrypt_key password)"

fun verifyPassword :: "string \<Rightarrow> pwhash \<Rightarrow> bool" where
  "verifyPassword password (Bcrypt salt k) = (bcrypt_key password = k)"

record jwt_claims =
  sub :: id_string
  org_id :: "id_string option"
  org_name :: "string option"
  role :: "string option"
  type_marker :: "string option"
  iat :: nat
  exp :: nat

datatype token = Jwt jwt_claims string | Malformed string

datatype digest = Sha256 token

text \<open>\<^verbatim>\<open>jwt.sign\<close> stamps \<open>iat\<close> with the clock in whole seconds and \<open>exp\<close> with
  \<open>iat\<close> plus the validity.\<close>

definition createAccessToken ::
  "string \<Rightarrow> nat \<Rightarrow> id_string \<Rightarrow> id_string option \<Rightarrow> string option \<Rightarrow> string \<Rightarrow> token" where
  "createAccessToken secret now adminId orgId orgName rl =
     Jwt \<lparr>sub = adminId, org_id = orgId, org_name = orgName, role = Some rl,
          type_marker = None, iat = now div 1000, exp = now div 1000 + 15 * 60\<rparr> secret"

definition createRefreshToken :: "string \<Rightarrow> nat \<Rightarrow> id_string \<Rightarrow> id_string option \<Rightarrow> token" where
  "createRefreshToken secret now adminId orgId =
     Jwt \<lparr>sub = adminId, org_id = orgId, org_name = None, role = None,
          type_marker = Some ''refresh'', iat = now div 1000,
          exp = now div 1000 + 7 * 24 * 60 * 60\<rparr> secret"

fun verifyToken :: "string \<Rightarrow> nat \<Rightarrow> token \<Rightarrow> error + jwt_claims" where
  "verifyToken secret now (Malformed s) = Inl (Invalid_token Jwt_malformed)"
| "verifyToken secret now (Jwt c k) =
     (if k \<noteq> secret then Inl (Invalid_token Invalid_signature)
      else if exp c \<le> now div 1000 then Inl (Invalid_token Jwt_expired)
      else Inr c)"

definition hashToken :: "token \<Rightarrow> digest" where
  "hashToken t = Sha256 t"

subsection \<open>Documents and the store\<close>

record org_doc =
  o_id :: objectid
  o_organization_name :: string
  o_db_name :: string
  o_admin_email :: string
  o_admin_user_id :: id_string
  o_created_at :: nat
  o_is_active :: bool

record admin_doc =
  a_id :: objectid
  a_admin_email :: string
  a_password :: pwhash
  a_role :: string
  a_organization_id :: "id_string option"
  a_organization_name :: "string option"
  a_created_at :: nat
  a_is_active :: bool
  a_refresh_token_hash :: "digest option"
  a_refresh_token_issued_at :: "nat option"

record user_doc =
  u_id :: objectid
  u_email :: string
  u_password :: pwhash
  u_role :: string
  u_created_at :: nat
  u_is_active :: bool
  u_updated_at :: "nat option"

text \<open>The write commands the service sends to the store.\<close>

datatype admin_fields = Set_organization_id | Set_credentials | Set_refresh_token

datatype command =
    CreateIndex string         \<comment> \<open>users.createIndex in the named organization database\<close>
  | InsertUser string          \<comment> \<open>users.insertOne in the named organization database\<close>
  | InsertAdmin
  | InsertOrg
  | UpdateAdmin admin_fields
  | UpdateUser string
  | DeleteOrg
  | DeleteAdmin
  | DropDatabase string

text \<open>
  \<open>org_dbs\<close> lists the organization databases that exist, by name, each with its
  \<^verbatim>\<open>users\<close> collection. \<open>oplog\<close> records every write command in the order it was
  sent; \<open>next_oid\<close> is the source of fresh ObjectIds. server.js creates the unique indexes on
  \<^verbatim>\<open>organization_name\<close> and \<^verbatim>\<open>admin_email\<close> at start-up, and \<open>createOrgDatabase\<close> the
  one on the \<^verbatim>\<open>email\<close> of an organization's users, so the inserts and updates below
  check them.
\<close>

record db_state =
  organizations :: "org_doc list"
  admin_users :: "admin_doc list"
  org_dbs :: "(string \<times> user_doc list) list"
  next_oid :: objectid
  oplog :: "command list"

definition init_state :: db_state where
  "init_state = \<lparr>organizations = [], admin_users = [], org_dbs = [],
                 next_oid = 0, oplog = []\<rparr>"

fun findOne :: "('a \<Rightarrow> bool) \<Rightarrow> 'a list \<Rightarrow> 'a option" where
  "findOne P [] = None"
| "findOne P (x # xs) = (if P x then Some x else findOne P xs)"

fun updateOne :: "('a \<Rightarrow> bool) \<Rightarrow> ('a \<Rightarrow> 'a) \<Rightarrow> 'a list \<Rightarrow> 'a list" where
  "updateOne P f [] = []"
| "updateOne P f (x # xs) = (if P x then f x # xs else x # updateOne P f xs)"

fun deleteOne :: "('a \<Rightarrow> bool) \<Rightarrow> 'a list \<Rightarrow> 'a list" where
  "deleteOne P [] = []"
| "deleteOne P (x # xs) = (if P x then xs else x # deleteOne P xs)"

text \<open>The filters of the queries.\<close>

definition by_organization_name :: "string \<Rightarrow> org_doc \<Rightarrow> bool" where
  "by_organization_name orgName d = (o_organization_name d = orgName)"

definition by_admin_email :: "string \<Rightarrow> admin_doc \<Rightarrow> bool" where
  "by_admin_email email d = (a_admin_email d = email)"

definition by_admin_id :: "objectid \<Rightarrow> admin_doc \<Rightarrow> bool" where
  "by_admin_id oid d = (a_id d = oid)"

definition by_organization_id :: "id_string \<Rightarrow> admin_doc \<Rightarrow> bool" where
  "by_organization_id i d = (a_organization_id d = Some i)"

definition by_user_role :: "string \<Rightarrow> user_doc \<Rightarrow> bool" where
  "by_user_role r d = (u_role d = r)"

definition users_of :: "db_state \<Rightarrow> string \<Rightarrow> user_doc list" where
  "users_of s dbName = (case map_of (org_dbs s) dbName of None \<Rightarrow> [] | Some us \<Rightarrow> us)"

definition send :: "command \<Rightarrow> db_state \<Rightarrow> db_state" where
  "send c s = s\<lparr>oplog := oplog s @ [c]\<rparr>"

text \<open>\<^verbatim>\<open>insertOne\<close>: the driver gives the document a fresh \<^verbatim>\<open>_id\<close>; the store rejects
  a document whose indexed field is taken.\<close>

definition users_insertOne ::
  "string \<Rightarrow> (objectid \<Rightarrow> user_doc) \<Rightarrow> db_state \<Rightarrow> (error + objectid) \<times> db_state" where
  "users_insertOne dbName doc s =
     (let s1 = send (InsertUser dbName) s; d = doc (next_oid s)
      in if u_email d \<in> set (map u_email (users_of s dbName)) then (Inl Duplicate_key, s1)
         else (Inr (next_oid s),
               s1\<lparr>org_dbs := AList.update dbName (users_of s dbName @ [d]) (org_dbs s),
                   next_oid := Suc (next_oid s)\<rparr>))"

definition admin_insertOne ::
  "(objectid \<Rightarrow> admin_doc) \<Rightarrow> db_state \<Rightarrow> (error + objectid) \<times> db_state" where
  "admin_insertOne doc s =
     (let s1 = send InsertAdmin s; d = doc (next_oid s)
      in if a_admin_email d \<in> set (map a_admin_email (admin_users s)) then (Inl Duplicate_key, s1)
         else (Inr (next_oid s),
               s1\<lparr>admin_users := admin_users s @ [d], next_oid := Suc (next_oid s)\<rparr>))"

definition orgs_insertOne ::
  "(objectid \<Rightarrow> org_doc) \<Rightarrow> db_state \<Rightarrow> (error + objectid) \<times> db_state" where
  "orgs_insertOne doc s =
     (let s1 = send InsertOrg s; d = doc (next_oid s)
      in if o_organization_name d \<in> set (map o_organization_name (organizations s))
         then (Inl Duplicate_key, s1)
         else (Inr (next_oid s),
               s1\<lparr>organizations := organizations s @ [d], next_oid := Suc (next_oid s)\<rparr>))"

text \<open>\<^verbatim>\<open>updateOne\<close> with \<^verbatim>\<open>$set\<close>: the first document the filter matches is changed;
  nothing happens when none matches.\<close>

definition admin_updateOne ::
  "admin_fields \<Rightarrow> (admin_doc \<Rightarrow> bool) \<Rightarrow> (admin_doc \<Rightarrow> admin_doc) \<Rightarrow> db_state \<Rightarrow> db_state" where
  "admin_updateOne what P f s =
     (send (UpdateAdmin what) s)\<lparr>admin_users := updateOne P f (admin_users s)\<rparr>"

text \<open>An update of the indexed email is rejected when another document holds the
  new value.\<close>

definition admin_updateOne_email ::
  "(admin_doc \<Rightarrow> bool) \<Rightarrow> string \<Rightarrow> (admin_doc \<Rightarrow> admin_doc) \<Rightarrow> db_state \<Rightarrow> (error + unit) \<times> db_state" where
  "admin_updateOne_email P email f s =
     (if findOne P (admin_users s) \<noteq> None
         \<and> email \<in> set (map a_admin_email (deleteOne P (admin_users s)))
      then (Inl Duplicate_key, send (UpdateAdmin Set_credentials) s)
      else (Inr (), admin_updateOne Set_credentials P f s))"

definition users_updateOne_email ::
  "string \<Rightarrow> (user_doc \<Rightarrow> bool) \<Rightarrow> string \<Rightarrow> (user_doc \<Rightarrow> user_doc) \<Rightarrow> db_state \<Rightarrow> (error + unit) \<times> db_state" where
  "users_updateOne_email dbName P email f s =
     (let s1 = send (UpdateUser dbName) s
      in if findOne P (users_of s dbName) = None then (Inr (), s1)
         else if email \<in> set (map u_email (deleteOne P (users_of s dbName)))
         then (Inl Duplicate_key, s1)
         else (Inr (), s1\<lparr>org_dbs := AList.update dbName (updateOne P f (users_of s dbName)) (org_dbs s)\<rparr>))"

definition orgs_deleteOne :: "(org_doc \<Rightarrow> bool) \<Rightarrow> db_state \<Rightarrow> db_state" where
  "orgs_deleteOne P s = (send DeleteOrg s)\<lparr>organizations := deleteOne P (organizations s)\<rparr>"

definition admin_deleteOne :: "(admin_doc \<Rightarrow> bool) \<Rightarrow> db_state \<Rightarrow> db_state" where
  "admin_deleteOne P s = (send DeleteAdmin s)\<lparr>admin_users := deleteOne P (admin_users s)\<rparr>"

subsection \<open>DatabaseManager (database.js)\<close>

definition is_space :: "char \<Rightarrow> bool" where
  "is_space c = (of_char c \<in> {9, 10, 11, 12, 13, 32, 160 :: nat})"

definition toLowerCase_char :: "char \<Rightarrow> char" where
  "toLowerCase_char c =
     (let n = of_char c :: nat
      in if (65 \<le> n \<and> n \<le> 90) \<or> (192 \<le> n \<and> n \<le> 222 \<and> n \<noteq> 215)
         then char_of (n + 32) else c)"

definition toLowerCase :: "string \<Rightarrow> string" where
  "toLowerCase s = map toLowerCase_char s"

text \<open>\<^verbatim>\<open>replace(/\s+/g, '_')\<close>: every maximal run of white space becomes one
  underscore. The flag says that the previous character was white space.\<close>

fun replace_spaces :: "bool \<Rightarrow> string \<Rightarrow> string" where
  "replace_spaces in_run [] = []"
| "replace_spaces in_run (c # cs) =
     (if is_space c
      then (if in_run then replace_spaces True cs else CHR ''_'' # replace_spaces True cs)
      else c # replace_spaces False cs)"

text \<open>The name of an organization's database, the expression that \<open>getOrgDb\<close>,
  \<open>createOrgDatabase\<close> and \<open>deleteOrgDatabase\<close> each compute.\<close>

definition dbNameFor :: "string \<Rightarrow> string" where
  "dbNameFor orgName = ''org_'' @ replace_spaces False (toLowerCase orgName)"

text \<open>
  MongoDB does not take every string as the name of a database: \<^verbatim>\<open>client.db(dbName)\<close>
  throws for a name with a dot in it, and driver and server refuse further names (other
  characters, names that are too long) by rules that depend on their versions and on the
  platform. The dot is written out; the further rules are the parameter \<open>refuses\<close>. A
  refused name ends the function with an error before any command is sent.
\<close>

definition db_name_refused :: "(string \<Rightarrow> bool) \<Rightarrow> string \<Rightarrow> bool" where
  "db_name_refused refuses dbName = (CHR ''.'' \<in> set dbName \<or> refuses dbName)"

definition getOrgDb :: "(string \<Rightarrow> bool) \<Rightarrow> string \<Rightarrow> error + string" where
  "getOrgDb refuses orgName =
     (let dbName = dbNameFor orgName
      in if db_name_refused refuses dbName then Inl Invalid_db_name else Inr dbName)"

text \<open>A database handle is the database's name. Creating the index brings the
  database and its \<^verbatim>\<open>users\<close> collection into being when they are not there yet.\<close>

definition createOrgDatabase ::
  "(string \<Rightarrow> bool) \<Rightarrow> string \<Rightarrow> db_state \<Rightarrow> (error + string) \<times> db_state" where
  "createOrgDatabase refuses orgName s =
     (let dbName = dbNameFor orgName
      in if db_name_refused refuses dbName then (Inl Invalid_db_name, s)
         else (Inr dbName,
               (send (CreateIndex dbName) s)
                 \<lparr>org_dbs := AList.update dbName (users_of s dbName) (org_dbs s)\<rparr>))"

definition deleteOrgDatabase ::
  "(string \<Rightarrow> bool) \<Rightarrow> string \<Rightarrow> db_state \<Rightarrow> (error + string) \<times> db_state" where
  "deleteOrgDatabase refuses orgName s =
     (let dbName = dbNameFor orgName
      in if db_name_refused refuses dbName then (Inl Invalid_db_name, s)
         else (Inr dbName,
               (send (DropDatabase dbName) s)\<lparr>org_dbs := AList.delete dbName (org_dbs s)\<rparr>))"

section \<open>The services (services.js)\<close>

text \<open>
  Every operation returns its outcome together with the state of the store it leaves
  behind: a thrown error does not undo the writes made before it. The email check
  \<^verbatim>\<open>validator.isEmail\<close> is a parameter, as is the store's rule \<open>refuses\<close> for the names
  of databases.
\<close>

definition ObjectId :: "id_string \<Rightarrow> error + objectid" where
  "ObjectId i = (case i of OidHex oid \<Rightarrow> Inr oid | NotOid s \<Rightarrow> Inl Invalid_object_id)"

subsection \<open>OrganizationService\<close>

record create_result =
  cr_id :: id_string
  cr_organization_name :: string
  cr_db_name :: string
  cr_admin_email :: string
  cr_created_at :: nat
  cr_message :: string

record get_result =
  gr_id :: id_string
  gr_organization_name :: string
  gr_db_name :: string
  gr_admin_email :: string
  gr_created_at :: nat
  gr_is_active :: bool

record change_result =
  ch_message :: string
  ch_organization_name :: string

definition new_user :: "string \<Rightarrow> pwhash \<Rightarrow> nat \<Rightarrow> objectid \<Rightarrow> user_doc" where
  "new_user email hashedPassword now i =
     \<lparr>u_id = i, u_email = email, u_password = hashedPassword, u_role = ''org_admin'',
      u_created_at = now, u_is_active = True, u_updated_at = None\<rparr>"

definition new_admin :: "string \<Rightarrow> pwhash \<Rightarrow> string \<Rightarrow> nat \<Rightarrow> objectid \<Rightarrow> admin_doc" where
  "new_admin email hashedPassword orgName now i =
     \<lparr>a_id = i, a_admin_email = email, a_password = hashedPassword, a_role = ''org_admin'',
      a_organization_id = None, a_organization_name = Some orgName, a_created_at = now,
      a_is_active = True, a_refresh_token_hash = None, a_refresh_token_issued_at = None\<rparr>"

definition new_org :: "string \<Rightarrow> string \<Rightarrow> string \<Rightarrow> objectid \<Rightarrow> nat \<Rightarrow> objectid \<Rightarrow> org_doc" where
  "new_org orgName dbName email userId now i =
     \<lparr>o_id = i, o_organization_name = orgName, o_db_name = dbName, o_admin_email = email,
      o_admin_user_id = toString userId, o_created_at = now, o_is_active = True\<rparr>"

definition set_organization_id :: "objectid \<Rightarrow> admin_doc \<Rightarrow> admin_doc" where
  "set_organization_id orgId a = a\<lparr>a_organization_id := Some (toString orgId)\<rparr>"

definition createOrganization ::
  "(string \<Rightarrow> bool) \<Rightarrow> (string \<Rightarrow> bool) \<Rightarrow> nat \<Rightarrow> string \<Rightarrow> string \<Rightarrow> string \<Rightarrow> string
     \<Rightarrow> db_state \<Rightarrow> (error + create_result) \<times> db_state" where
  "createOrganization isEmail refuses now salt orgName email password s =
     (if orgName = [] \<or> email = [] \<or> password = [] then (Inl Fields_required, s)
      else if \<not> isEmail email then (Inl Invalid_email_format, s)
      else if length password < 6 then (Inl Password_too_short, s)
      else if findOne (by_organization_name orgName) (organizations s) \<noteq> None
      then (Inl Org_already_exists, s)
      else
        (case createOrgDatabase refuses orgName s of
           (Inl e, s1) \<Rightarrow> (Inl (Failed_to_create e), s1)
         | (Inr dbName, s1) \<Rightarrow>
         let hashedPassword = hashPassword salt password in
         (case users_insertOne dbName (new_user email hashedPassword now) s1 of
            (Inl e, s2) \<Rightarrow> (Inl (Failed_to_create e), s2)
          | (Inr userId, s2) \<Rightarrow>
         (case admin_insertOne (new_admin email hashedPassword orgName now) s2 of
            (Inl e, s3) \<Rightarrow> (Inl (Failed_to_create e), s3)
          | (Inr adminId, s3) \<Rightarrow>
         (case orgs_insertOne (new_org orgName dbName email userId now) s3 of
            (Inl e, s4) \<Rightarrow> (Inl (Failed_to_create e), s4)
          | (Inr orgId, s4) \<Rightarrow>
              (Inr \<lparr>cr_id = toString orgId, cr_organization_name = orgName,
                    cr_db_name = dbName, cr_admin_email = email, cr_created_at = now,
                    cr_message = ''Organization created successfully''\<rparr>,
               admin_updateOne Set_organization_id (by_admin_id adminId)
                 (set_organization_id orgId) s4))))))"

definition getOrganization :: "string \<Rightarrow> db_state \<Rightarrow> (error + get_result) \<times> db_state" where
  "getOrganization orgName s =
     (if orgName = [] then (Inl Org_name_required, s)
      else (case findOne (by_organization_name orgName) (organizations s) of
              None \<Rightarrow> (Inl Org_not_found, s)
            | Some org \<Rightarrow>
                (Inr \<lparr>gr_id = toString (o_id org),
                      gr_organization_name = o_organization_name org,
                      gr_db_name = o_db_name org, gr_admin_email = o_admin_email org,
                      gr_created_at = o_created_at org, gr_is_active = o_is_active org\<rparr>, s)))"

definition set_admin_credentials :: "string \<Rightarrow> pwhash \<Rightarrow> admin_doc \<Rightarrow> admin_doc" where
  "set_admin_credentials email hashedPassword a =
     a\<lparr>a_admin_email := email, a_password := hashedPassword\<rparr>"

definition set_user_credentials :: "string \<Rightarrow> pwhash \<Rightarrow> nat \<Rightarrow> user_doc \<Rightarrow> user_doc" where
  "set_user_credentials email hashedPassword now u =
     u\<lparr>u_email := email, u_password := hashedPassword, u_updated_at := Some now\<rparr>"

definition updateOrganization ::
  "(string \<Rightarrow> bool) \<Rightarrow> (string \<Rightarrow> bool) \<Rightarrow> nat \<Rightarrow> string \<Rightarrow> string \<Rightarrow> string \<Rightarrow> string
     \<Rightarrow> db_state \<Rightarrow> (error + change_result) \<times> db_state" where
  "updateOrganization isEmail refuses now salt orgName email password s =
     (if orgName = [] \<or> email = [] \<or> password = [] then (Inl Fields_required, s)
      else if \<not> isEmail email then (Inl Invalid_email_format, s)
      else
        (case findOne (by_organization_name orgName) (organizations s) of
           None \<Rightarrow> (Inl Org_not_found, s)
         | Some org \<Rightarrow>
         let hashedPassword = hashPassword salt password in
         (case admin_updateOne_email (by_organization_id (toString (o_id org))) email
                 (set_admin_credentials email hashedPassword) s of
            (Inl e, s1) \<Rightarrow> (Inl (Failed_to_update e), s1)
          | (Inr _, s1) \<Rightarrow>
         (case getOrgDb refuses orgName of
            Inl e \<Rightarrow> (Inl (Failed_to_update e), s1)
          | Inr orgDb \<Rightarrow>
         (case users_updateOne_email orgDb (by_user_role ''admin'') email
                 (set_user_credentials email hashedPassword now) s1 of
            (Inl e, s2) \<Rightarrow> (Inl (Failed_to_update e), s2)
          | (Inr _, s2) \<Rightarrow>
              (Inr \<lparr>ch_message = ''Organization updated successfully'',
                    ch_organization_name = orgName\<rparr>, s2))))))"

definition deleteOrganization ::
  "(string \<Rightarrow> bool) \<Rightarrow> string \<Rightarrow> id_string \<Rightarrow> db_state
     \<Rightarrow> (error + change_result) \<times> db_state" where
  "deleteOrganization refuses orgName adminId s =
     (if orgName = [] then (Inl Org_name_required, s)
      else
        (case findOne (by_organization_name orgName) (organizations s) of
           None \<Rightarrow> (Inl Org_not_found, s)
         | Some org \<Rightarrow>
             (let s1 = orgs_deleteOne (by_organization_name orgName) s;
                  s2 = admin_deleteOne (by_organization_id (toString (o_id org))) s1
              in case deleteOrgDatabase refuses orgName s2 of
                   (Inl e, s3) \<Rightarrow> (Inl (Failed_to_delete e), s3)
                 | (Inr _, s3) \<Rightarrow>
                     (Inr \<lparr>ch_message = ''Organization deleted successfully'',
                           ch_organization_name = orgName\<rparr>, s3))))"

subsection \<open>AuthService\<close>

record login_result =
  lr_access_token :: token
  lr_refresh_token :: token
  lr_token_type :: string
  lr_expires_in :: nat
  lr_admin_id :: id_string
  lr_organization_id :: "id_string option"
  lr_organization_name :: "string option"

record refresh_result =
  rr_access_token :: token
  rr_token_type :: string
  rr_expires_in :: nat

definition set_refresh_token :: "digest \<Rightarrow> nat \<Rightarrow> admin_doc \<Rightarrow> admin_doc" where
  "set_refresh_token hashedRefresh now a =
     a\<lparr>a_refresh_token_hash := Some hashedRefresh, a_refresh_token_issued_at := Some now\<rparr>"

definition adminLogin ::
  "string \<Rightarrow> nat \<Rightarrow> string \<Rightarrow> string \<Rightarrow> db_state \<Rightarrow> (error + login_result) \<times> db_state" where
  "adminLogin secret now email password s =
     (if email = [] \<or> password = [] then (Inl Credentials_required, s)
      else
        (case findOne (by_admin_email email) (admin_users s) of
           None \<Rightarrow> (Inl Invalid_credentials, s)
         | Some admin \<Rightarrow>
             if \<not> verifyPassword password (a_password admin) then (Inl Invalid_credentials, s)
             else
               (let accessToken = createAccessToken secret now (toString (a_id admin))
                      (a_organization_id admin) (a_organization_name admin) (a_role admin);
                    refreshToken = createRefreshToken secret now (toString (a_id admin))
                      (a_organization_id admin);
                    hashedRefresh = hashToken refreshToken
                in (Inr \<lparr>lr_access_token = accessToken, lr_refresh_token = refreshToken,
                         lr_token_type = ''bearer'', lr_expires_in = 15 * 60,
                         lr_admin_id = toString (a_id admin),
                         lr_organization_id = a_organization_id admin,
                         lr_organization_name = a_organization_name admin\<rparr>,
                    admin_updateOne Set_refresh_token (by_admin_id (a_id admin))
                      (set_refresh_token hashedRefresh now) s))))"

definition refreshAccessToken ::
  "string \<Rightarrow> nat \<Rightarrow> id_string \<Rightarrow> token \<Rightarrow> db_state \<Rightarrow> (error + refresh_result) \<times> db_state" where
  "refreshAccessToken secret now adminId refreshToken s =
     (case verifyToken secret now refreshToken of
        Inl e \<Rightarrow> (Inl (Token_refresh_failed e), s)
      | Inr decoded \<Rightarrow>
          if type_marker decoded \<noteq> Some ''refresh''
          then (Inl (Token_refresh_failed Invalid_refresh_token_type), s)
          else
            (case ObjectId adminId of
               Inl e \<Rightarrow> (Inl (Token_refresh_failed e), s)
             | Inr oid \<Rightarrow>
            (case findOne (by_admin_id oid) (admin_users s) of
               None \<Rightarrow> (Inl (Token_refresh_failed Admin_not_found), s)
             | Some admin \<Rightarrow>
                 if a_refresh_token_hash admin \<noteq> Some (hashToken refreshToken)
                 then (Inl (Token_refresh_failed Refresh_token_mismatch), s)
                 else
                   (Inr \<lparr>rr_access_token = createAccessToken secret now (toString (a_id admin))
                           (a_organization_id admin) (a_organization_name admin) (a_role admin),
                         rr_token_type = ''bearer'', rr_expires_in = 15 * 60\<rparr>, s))))"

section \<open>Notions of the specification\<close>

text \<open>
  The namespace derivation in the specification's words: the name in lower case, every
  maximal run of white space replaced by one underscore, behind a fixed prefix.
\<close>

function namespaceFor :: "string \<Rightarrow> string" where
  "namespaceFor [] = []"
| "namespaceFor (c # cs) =
     (if is_space c then CHR ''_'' # namespaceFor (dropWhile is_space cs)
      else c # namespaceFor cs)"
  by pat_completeness auto
termination
  by (relation "measure length") (auto simp: length_dropWhile_le less_Suc_eq_le)

text \<open>The principal with a given id string, and the refresh-token fingerprint stored
  for it.\<close>

definition by_id_string :: "id_string \<Rightarrow> admin_doc \<Rightarrow> bool" where
  "by_id_string adminId a = (toString (a_id a) = adminId)"

definition principal_of :: "id_string \<Rightarrow> db_state \<Rightarrow> admin_doc option" where
  "principal_of adminId s = findOne (by_id_string adminId) (admin_users s)"

definition stored_fingerprint :: "id_string \<Rightarrow> db_state \<Rightarrow> digest option" where
  "stored_fingerprint adminId s =
     (case principal_of adminId s of None \<Rightarrow> None | Some a \<Rightarrow> a_refresh_token_hash a)"

text \<open>A presented token is a valid refresh token when its signature is good, it has not
  expired and it carries the refresh type marker.\<close>

definition valid_refresh_token :: "string \<Rightarrow> nat \<Rightarrow> token \<Rightarrow> bool" where
  "valid_refresh_token secret now t =
     (case t of Malformed x \<Rightarrow> False
      | Jwt c k \<Rightarrow> k = secret \<and> now div 1000 < exp c \<and> type_marker c = Some ''refresh'')"

text \<open>The outcomes of \<open>refresh\<close> in the specification's error taxonomy, and the
  outcome that a result of \<open>refreshAccessToken\<close> stands for.\<close>

datatype refresh_outcome =
  InvalidRefreshToken | NotFound | RefreshMismatch | Succeeds | MalformedId | OtherFailure

fun refresh_outcome_of :: "error + refresh_result \<Rightarrow> refresh_outcome" where
  "refresh_outcome_of (Inr r) = Succeeds"
| "refresh_outcome_of (Inl (Token_refresh_failed (Invalid_token e))) = InvalidRefreshToken"
| "refresh_outcome_of (Inl (Token_refresh_failed Invalid_refresh_token_type)) = InvalidRefreshToken"
| "refresh_outcome_of (Inl (Token_refresh_failed Admin_not_found)) = NotFound"
| "refresh_outcome_of (Inl (Token_refresh_failed Refresh_token_mismatch)) = RefreshMismatch"
| "refresh_outcome_of (Inl (Token_refresh_failed Invalid_object_id)) = MalformedId"
| "refresh_outcome_of (Inl e) = OtherFailure"

text \<open>The decision table of \<open>refresh\<close> as the specification words it.\<close>

definition refresh_spec :: "string \<Rightarrow> nat \<Rightarrow> id_string \<Rightarrow> token \<Rightarrow> db_state \<Rightarrow> refresh_outcome" where
  "refresh_spec secret now adminId t s =
     (if \<not> valid_refresh_token secret now t then InvalidRefreshToken
      else case principal_of adminId s of
             None \<Rightarrow> NotFound
           | Some a \<Rightarrow> if a_refresh_token_hash a \<noteq> Some (hashToken t) then RefreshMismatch
                       else Succeeds)"

fun is_object_id :: "id_string \<Rightarrow> bool" where
  "is_object_id (OidHex oid) = True"
| "is_object_id (NotOid x) = False"

text \<open>The same table with the case of an id string that is no ObjectId.\<close>

definition refresh_spec_amended ::
  "string \<Rightarrow> nat \<Rightarrow> id_string \<Rightarrow> token \<Rightarrow> db_state \<Rightarrow> refresh_outcome" where
  "refresh_spec_amended secret now adminId t s =
     (if \<not> valid_refresh_token secret now t then InvalidRefreshToken
      else if \<not> is_object_id adminId then MalformedId
      else refresh_spec secret now adminId t s)"

text \<open>The unique index on \<^verbatim>\<open>organization_name\<close>, as a property of the state.\<close>

definition names_unique :: "db_state \<Rightarrow> bool" where
  "names_unique s = distinct (map o_organization_name (organizations s))"

text \<open>Every registered organization has a database name that is not refused.\<close>

definition db_name_accepted :: "(string \<Rightarrow> bool) \<Rightarrow> org_doc \<Rightarrow> bool" where
  "db_name_accepted refuses d = (\<not> db_name_refused refuses (dbNameFor (o_organization_name d)))"

definition db_names_accepted :: "(string \<Rightarrow> bool) \<Rightarrow> db_state \<Rightarrow> bool" where
  "db_names_accepted refuses s = list_all (db_name_accepted refuses) (organizations s)"

section \<open>A scenario\<close>

text \<open>
  The organization ``Acme Inc'' is created in the empty store; its admin logs in at
  5000 ms, again at 5400 ms (the same clock second) or at 8000 ms (a later second); the
  organization's credentials are updated. \<open>isEmail_example\<close> stands in for
  \<^verbatim>\<open>validator.isEmail\<close> and \<open>refuses_example\<close> for the store's further rules on database
  names; \<open>jwtSecret_default\<close> is the default of config.js.
\<close>

definition isEmail_example :: "string \<Rightarrow> bool" where
  "isEmail_example e = (CHR ''@'' \<in> set e)"

definition refuses_example :: "string \<Rightarrow> bool" where
  "refuses_example dbName = (CHR ''$'' \<in> set dbName \<or> 64 \<le> length dbName)"

definition jwtSecret_default :: string where
  "jwtSecret_default = ''your-super-secret-key-change-this-in-production''"

definition acme_created :: "(error + create_result) \<times> db_state" where
  "acme_created =
     createOrganization isEmail_example refuses_example 1000 ''salt1'' ''Acme Inc'' ''admin@acme.com''
       ''Secret123'' init_state"

definition acme_state :: db_state where
  "acme_state = snd acme_created"

definition acme_login :: "(error + login_result) \<times> db_state" where
  "acme_login = adminLogin jwtSecret_default 5000 ''admin@acme.com'' ''Secret123'' acme_state"



definition acme_refresh_token :: token where
  "acme_refresh_token = createRefreshToken jwtSecret_default 5000 (OidHex 1) (Some (OidHex 2))"

definition acme_updated :: "(error + change_result) \<times> db_state" where
  "acme_updated =
     updateOrganization isEmail_example refuses_example 3000 ''salt2'' ''Acme Inc'' ''new@acme.com''
       ''NewSecret456'' acme_state"

section \<open>Facts about the store and the operations\<close>


lemma findOne_append:
  "findOne P (xs @ ys) = (case findOne P xs of None \<Rightarrow> findOne P ys | Some x \<Rightarrow> Some x)"
  by (induction xs) auto

lemma findOne_None_iff: "findOne P xs = None \<longleftrightarrow> (\<forall>x \<in> set xs. \<not> P x)"
  by (induction xs) auto

lemma findOne_SomeD: "findOne P xs = Some x \<Longrightarrow> P x \<and> x \<in> set xs"
  by (induction xs) (auto split: if_splits)



lemma findOne_deleteOne_unique:
  assumes "distinct (map key xs)"
  shows "findOne (\<lambda>d. key d = k) (deleteOne (\<lambda>d. key d = k) xs) = None"
  using assms
proof (induction xs)
  case Nil
  then show ?case by simp
next
  case (Cons x xs)
  show ?case
  proof (cases "key x = k")
    case True
    with Cons.prems have "\<forall>d \<in> set xs. key d \<noteq> k" by (auto simp: image_iff)
    with True show ?thesis by (simp add: findOne_None_iff)
  next
    case False
    with Cons show ?thesis by simp
  qed
qed

lemma set_deleteOne: "set (deleteOne P xs) \<subseteq> set xs"
  by (induction xs) auto

lemma distinct_map_deleteOne: "distinct (map key xs) \<Longrightarrow> distinct (map key (deleteOne P xs))"
proof (induction xs)
  case Nil
  then show ?case by simp
next
  case (Cons x xs)
  then show ?case using set_deleteOne [of P xs] by (auto simp: image_iff)
qed

lemma by_organization_name_eq: "by_organization_name k = (\<lambda>d. o_organization_name d = k)"
  by (rule ext) (simp add: by_organization_name_def)

lemma by_id_string_OidHex: "by_id_string (OidHex oid) = by_admin_id oid"
  by (rule ext) (simp add: by_id_string_def by_admin_id_def toString_def)

lemma principal_OidHex: "principal_of (OidHex oid) s = findOne (by_admin_id oid) (admin_users s)"
  by (simp add: principal_of_def by_id_string_OidHex)

lemma principal_NotOid: "principal_of (NotOid x) s = None"
  by (simp add: principal_of_def findOne_None_iff by_id_string_def toString_def)

text \<open>Verification compares the 72 bytes that bcrypt reads: a password is accepted for
  the hash of another one with the same 72 bytes.\<close>

lemma verifyPassword_hashPassword:
  "verifyPassword p (hashPassword salt q) = (bcrypt_key p = bcrypt_key q)"
  by (simp add: hashPassword_def)

lemma key_stream_take: "n \<le> length rest \<Longrightarrow> key_stream n key rest = take n rest"
proof (induction n arbitrary: rest)
  case 0
  then show ?case by simp
next
  case (Suc n)
  then show ?case by (cases rest) simp_all
qed

lemma bcrypt_key_long:
  assumes "72 \<le> length (utf8_bytes p)"
  shows "bcrypt_key p = take 72 (utf8_bytes p)"
  using assms by (simp add: bcrypt_key_def key_stream_take)

lemma verifyPassword_same_72_bytes:
  assumes "72 \<le> length (utf8_bytes p)"
    and "take 72 (utf8_bytes q) = take 72 (utf8_bytes p)"
  shows "verifyPassword q (hashPassword salt p)"
proof -
  from assms have "length (take 72 (utf8_bytes q)) = 72" by simp
  then have "72 \<le> length (utf8_bytes q)" by simp
  with assms show ?thesis
    by (simp add: verifyPassword_hashPassword bcrypt_key_long)
qed

lemma acme_wrong_passwords:
  "bcrypt_key ''Secret124'' \<noteq> bcrypt_key ''Secret123''"
  "bcrypt_key ''Secret123'' \<noteq> bcrypt_key ''NewSecret456''"
  by code_simp+

text \<open>The source's replacement of white-space runs agrees with the specification's.\<close>

lemma replace_spaces_True: "replace_spaces True cs = replace_spaces False (dropWhile is_space cs)"
  by (induction cs) auto

lemma replace_spaces_runs: "replace_spaces False cs = namespaceFor cs"
  by (induction cs rule: namespaceFor.induct) (auto simp: replace_spaces_True)

lemma dbNameFor_namespaceFor: "dbNameFor orgName = ''org_'' @ namespaceFor (toLowerCase orgName)"
  by (simp add: dbNameFor_def replace_spaces_runs)

text \<open>The name the test suite expects for ``Test Company''.\<close>

lemma dbNameFor_Test_Company: "dbNameFor ''Test Company'' = ''org_test_company''"
  by code_simp

lemma acme_dbName: "dbNameFor ''Acme Inc'' = ''org_acme_inc''"
  by code_simp

text \<open>What a successful \<open>createOrganization\<close> has checked and written.\<close>

lemma createOrganization_Inr:
  assumes "createOrganization isEmail refuses now salt orgName email password s = (Inr r, s')"
  shows "orgName \<noteq> [] \<and> email \<noteq> [] \<and> isEmail email \<and> 6 \<le> length password
    \<and> findOne (by_organization_name orgName) (organizations s) = None
    \<and> \<not> db_name_refused refuses (dbNameFor orgName)
    \<and> email \<notin> set (map u_email (users_of s (dbNameFor orgName)))
    \<and> email \<notin> set (map a_admin_email (admin_users s))
    \<and> r = \<lparr>cr_id = toString (next_oid s + 2), cr_organization_name = orgName,
            cr_db_name = dbNameFor orgName, cr_admin_email = email, cr_created_at = now,
            cr_message = ''Organization created successfully''\<rparr>
    \<and> organizations s' = organizations s @
          [new_org orgName (dbNameFor orgName) email (next_oid s) now (next_oid s + 2)]
    \<and> admin_users s' =
          updateOne (by_admin_id (next_oid s + 1)) (set_organization_id (next_oid s + 2))
            (admin_users s @
               [new_admin email (hashPassword salt password) orgName now (next_oid s + 1)])
    \<and> users_of s' (dbNameFor orgName) = users_of s (dbNameFor orgName) @
          [new_user email (hashPassword salt password) now (next_oid s)]
    \<and> next_oid s' = next_oid s + 3
    \<and> oplog s' = oplog s @ [CreateIndex (dbNameFor orgName), InsertUser (dbNameFor orgName),
          InsertAdmin, InsertOrg, UpdateAdmin Set_organization_id]"
  using assms
  unfolding createOrganization_def createOrgDatabase_def users_insertOne_def admin_insertOne_def
    orgs_insertOne_def admin_updateOne_def send_def Let_def
  by (auto split: if_splits prod.splits sum.splits
      simp: users_of_def update_conv' new_user_def new_admin_def)

text \<open>When \<open>createOrganization\<close> succeeds: the inputs pass validation, no organization
  has the name, the database name is not refused, and the email is held neither by a
  user of the organization's database nor by an admin principal.\<close>

lemma createOrganization_succeeds:
  assumes "orgName \<noteq> []" and "email \<noteq> []" and "isEmail email" and "6 \<le> length password"
    and "findOne (by_organization_name orgName) (organizations s) = None"
    and "\<not> db_name_refused refuses (dbNameFor orgName)"
    and "email \<notin> set (map u_email (users_of s (dbNameFor orgName)))"
    and "email \<notin> set (map a_admin_email (admin_users s))"
  shows "fst (createOrganization isEmail refuses now salt orgName email password s) =
     Inr \<lparr>cr_id = toString (next_oid s + 2), cr_organization_name = orgName,
            cr_db_name = dbNameFor orgName, cr_admin_email = email, cr_created_at = now,
            cr_message = ''Organization created successfully''\<rparr>"
proof -
  from assms(5) have "orgName \<notin> set (map o_organization_name (organizations s))"
    by (auto simp: findOne_None_iff by_organization_name_def)
  with assms show ?thesis
    unfolding createOrganization_def createOrgDatabase_def users_insertOne_def
      admin_insertOne_def orgs_insertOne_def admin_updateOne_def send_def Let_def
    by (auto simp: users_of_def update_conv' new_user_def new_admin_def new_org_def)
qed

lemma acme_dbNames:
  "dbNameFor ''Globex'' = ''org_globex''"
  "dbNameFor ''Acme Inc.'' = ''org_acme_inc.''"
  by code_simp+

lemmas store_defs =
  createOrgDatabase_def deleteOrgDatabase_def getOrgDb_def db_name_refused_def
  users_insertOne_def admin_insertOne_def orgs_insertOne_def admin_updateOne_def
  admin_updateOne_email_def users_updateOne_email_def orgs_deleteOne_def admin_deleteOne_def
  send_def users_of_def Let_def by_organization_name_def by_admin_email_def by_admin_id_def
  by_organization_id_def by_user_role_def toString_def new_user_def new_admin_def new_org_def
  set_organization_id_def set_admin_credentials_def set_user_credentials_def
  isEmail_example_def refuses_example_def

lemma acme_created_full:
  "acme_created =
     (Inr \<lparr>cr_id = OidHex 2, cr_organization_name = ''Acme Inc'', cr_db_name = ''org_acme_inc'',
           cr_admin_email = ''admin@acme.com'', cr_created_at = 1000,
           cr_message = ''Organization created successfully''\<rparr>,
      \<lparr>organizations =
         [\<lparr>o_id = 2, o_organization_name = ''Acme Inc'', o_db_name = ''org_acme_inc'',
           o_admin_email = ''admin@acme.com'', o_admin_user_id = OidHex 0,
           o_created_at = 1000, o_is_active = True\<rparr>],
       admin_users =
         [\<lparr>a_id = 1, a_admin_email = ''admin@acme.com'',
           a_password = hashPassword ''salt1'' ''Secret123'', a_role = ''org_admin'',
           a_organization_id = Some (OidHex 2), a_organization_name = Some ''Acme Inc'',
           a_created_at = 1000, a_is_active = True, a_refresh_token_hash = None,
           a_refresh_token_issued_at = None\<rparr>],
       org_dbs = [(''org_acme_inc'',
         [\<lparr>u_id = 0, u_email = ''admin@acme.com'', u_password = hashPassword ''salt1'' ''Secret123'',
           u_role = ''org_admin'', u_created_at = 1000, u_is_active = True,
           u_updated_at = None\<rparr>])],
       next_oid = 3,
       oplog = [CreateIndex ''org_acme_inc'', InsertUser ''org_acme_inc'', InsertAdmin,
                InsertOrg, UpdateAdmin Set_organization_id]\<rparr>)"
  by (simp add: acme_created_def createOrganization_def init_state_def acme_dbName store_defs)

lemma acme_state_value:
  "acme_state =
      \<lparr>organizations =
         [\<lparr>o_id = 2, o_organization_name = ''Acme Inc'', o_db_name = ''org_acme_inc'',
           o_admin_email = ''admin@acme.com'', o_admin_user_id = OidHex 0,
           o_created_at = 1000, o_is_active = True\<rparr>],
       admin_users =
         [\<lparr>a_id = 1, a_admin_email = ''admin@acme.com'',
           a_password = hashPassword ''salt1'' ''Secret123'', a_role = ''org_admin'',
           a_organization_id = Some (OidHex 2), a_organization_name = Some ''Acme Inc'',
           a_created_at = 1000, a_is_active = True, a_refresh_token_hash = None,
           a_refresh_token_issued_at = None\<rparr>],
       org_dbs = [(''org_acme_inc'',
         [\<lparr>u_id = 0, u_email = ''admin@acme.com'', u_password = hashPassword ''salt1'' ''Secret123'',
           u_role = ''org_admin'', u_created_at = 1000, u_is_active = True,
           u_updated_at = None\<rparr>])],
       next_oid = 3,
       oplog = [CreateIndex ''org_acme_inc'', InsertUser ''org_acme_inc'', InsertAdmin,
                InsertOrg, UpdateAdmin Set_organization_id]\<rparr>"
  by (simp add: acme_state_def acme_created_full)

lemma acme_created_value:
  "createOrganization isEmail_example refuses_example 1000 ''salt1'' ''Acme Inc''
       ''admin@acme.com'' ''Secret123'' init_state =
     (Inr \<lparr>cr_id = OidHex 2, cr_organization_name = ''Acme Inc'', cr_db_name = ''org_acme_inc'',
           cr_admin_email = ''admin@acme.com'', cr_created_at = 1000,
           cr_message = ''Organization created successfully''\<rparr>, acme_state)"
proof -
  have "acme_created =
     (Inr \<lparr>cr_id = OidHex 2, cr_organization_name = ''Acme Inc'', cr_db_name = ''org_acme_inc'',
           cr_admin_email = ''admin@acme.com'', cr_created_at = 1000,
           cr_message = ''Organization created successfully''\<rparr>, snd acme_created)"
    by (simp add: acme_created_full)
  then show ?thesis
    unfolding acme_state_def acme_created_def .
qed

lemma acme_created_state:
  "snd (createOrganization isEmail_example refuses_example 1000 ''salt1'' ''Acme Inc''
       ''admin@acme.com'' ''Secret123'' init_state) = acme_state"
  by (simp add: acme_state_def acme_created_def)

lemma acme_find_org:
  "findOne (by_organization_name ''Acme Inc'') (organizations acme_state) =
     Some \<lparr>o_id = 2, o_organization_name = ''Acme Inc'', o_db_name = ''org_acme_inc'',
           o_admin_email = ''admin@acme.com'', o_admin_user_id = OidHex 0,
           o_created_at = 1000, o_is_active = True\<rparr>"
  by (simp add: acme_state_value by_organization_name_def)

section \<open>Creating an organization\<close>

text \<open>
  Claim C3, as amended. For every triple of name, email and password on which \<open>create\<close>
  succeeds, \<open>create\<close> followed at once by \<open>get\<close> on the same name returns a record whose
  \<^verbatim>\<open>db_name\<close> is the derivation applied to the name: the prefix \<^verbatim>\<open>org_\<close>, then the name in
  lower case with every run of white space replaced by one underscore.
\<close>

theorem create_then_get_db_name:
  assumes "createOrganization isEmail refuses now salt orgName email password s = (Inr r, s')"
  shows "getOrganization orgName s' =
           (Inr \<lparr>gr_id = cr_id r, gr_organization_name = orgName,
                 gr_db_name = ''org_'' @ namespaceFor (toLowerCase orgName),
                 gr_admin_email = email, gr_created_at = now, gr_is_active = True\<rparr>, s')"
proof -
  note c = createOrganization_Inr [OF assms]
  let ?d = "new_org orgName (dbNameFor orgName) email (next_oid s) now (next_oid s + 2)"
  have "findOne (by_organization_name orgName) (organizations s') = Some ?d"
    using c by (simp add: findOne_append by_organization_name_def new_org_def)
  moreover have "orgName \<noteq> []" using c by simp
  moreover have "cr_id r = toString (next_oid s + 2)" using c by simp
  ultimately show ?thesis
    by (simp add: getOrganization_def new_org_def dbNameFor_namespaceFor)
qed

theorem create_then_get_db_name_witness:
  "createOrganization isEmail_example refuses_example 1000 ''salt1'' ''Acme Inc'' ''admin@acme.com''
       ''Secret123'' init_state =
     (Inr \<lparr>cr_id = OidHex 2, cr_organization_name = ''Acme Inc'', cr_db_name = ''org_acme_inc'',
           cr_admin_email = ''admin@acme.com'', cr_created_at = 1000,
           cr_message = ''Organization created successfully''\<rparr>, acme_state)
   \<and> getOrganization ''Acme Inc'' acme_state =
       (Inr \<lparr>gr_id = OidHex 2, gr_organization_name = ''Acme Inc'', gr_db_name = ''org_acme_inc'',
             gr_admin_email = ''admin@acme.com'', gr_created_at = 1000, gr_is_active = True\<rparr>,
        acme_state)"
proof -
  have n: "namespaceFor (toLowerCase ''Acme Inc'') = ''acme_inc''"
    by code_simp
  show ?thesis
    using acme_created_value create_then_get_db_name [OF acme_created_value] by (simp add: n)
qed

text \<open>
  Claim C3 as stated, for every valid triple, fails, because \<open>create\<close> can fail on a valid
  triple and \<open>get\<close> then finds nothing. With ``Acme Inc'' registered, the valid triple
  of the new name ``Globex'' and the email of Acme's admin runs into the unique index on
  the admin email. In the empty store, the name ``Acme Inc.'' gives a database name with
  a dot, which is refused.
\<close>

theorem create_fails_on_valid_triple_counterexample:
  "isEmail_example ''admin@acme.com'' \<and> 6 \<le> length ''Secret999''
   \<and> findOne (by_organization_name ''Globex'') (organizations acme_state) = None
   \<and> fst (createOrganization isEmail_example refuses_example 2000 ''salt2'' ''Globex''
          ''admin@acme.com'' ''Secret999'' acme_state) = Inl (Failed_to_create Duplicate_key)
   \<and> fst (getOrganization ''Globex''
          (snd (createOrganization isEmail_example refuses_example 2000 ''salt2'' ''Globex''
             ''admin@acme.com'' ''Secret999'' acme_state))) = Inl Org_not_found
   \<and> fst (createOrganization isEmail_example refuses_example 1000 ''salt1'' ''Acme Inc.''
          ''admin@acme.com'' ''Secret123'' init_state) = Inl (Failed_to_create Invalid_db_name)
   \<and> fst (getOrganization ''Acme Inc.''
          (snd (createOrganization isEmail_example refuses_example 1000 ''salt1'' ''Acme Inc.''
             ''admin@acme.com'' ''Secret123'' init_state))) = Inl Org_not_found"
  by (simp add: createOrganization_def getOrganization_def acme_state_value init_state_def
      acme_dbNames store_defs)

text \<open>
  Claim C9, as amended. A successful \<open>create\<close> sends its writes in this order: it
  provisions the tenant database, inserts the tenant-local user, inserts the admin
  principal, inserts the organization record and back-fills the admin principal's
  organization reference. The password is hashed once and the one hash is stored in both
  the user and the admin principal. The summary returned carries the generated
  \<^verbatim>\<open>db_name\<close>.
\<close>

theorem create_write_sequence:
  assumes "createOrganization isEmail refuses now salt orgName email password s = (Inr r, s')"
  shows "oplog s' = oplog s @ [CreateIndex (dbNameFor orgName), InsertUser (dbNameFor orgName),
                               InsertAdmin, InsertOrg, UpdateAdmin Set_organization_id]
    \<and> users_of s' (dbNameFor orgName) = users_of s (dbNameFor orgName) @
         [new_user email (hashPassword salt password) now (next_oid s)]
    \<and> admin_users s' =
         updateOne (by_admin_id (next_oid s + 1)) (set_organization_id (next_oid s + 2))
           (admin_users s @
              [new_admin email (hashPassword salt password) orgName now (next_oid s + 1)])
    \<and> organizations s' = organizations s @
         [new_org orgName (dbNameFor orgName) email (next_oid s) now (next_oid s + 2)]
    \<and> cr_db_name r = dbNameFor orgName"
  using createOrganization_Inr [OF assms] by simp

theorem create_write_sequence_witness:
  "createOrganization isEmail_example refuses_example 1000 ''salt1'' ''Acme Inc'' ''admin@acme.com''
       ''Secret123'' init_state =
     (Inr \<lparr>cr_id = OidHex 2, cr_organization_name = ''Acme Inc'', cr_db_name = ''org_acme_inc'',
           cr_admin_email = ''admin@acme.com'', cr_created_at = 1000,
           cr_message = ''Organization created successfully''\<rparr>, acme_state)
   \<and> oplog acme_state =
       [CreateIndex ''org_acme_inc'', InsertUser ''org_acme_inc'', InsertAdmin, InsertOrg,
        UpdateAdmin Set_organization_id]
   \<and> users_of acme_state ''org_acme_inc'' =
       [new_user ''admin@acme.com'' (hashPassword ''salt1'' ''Secret123'') 1000 0]"
  using acme_created_value create_write_sequence [OF acme_created_value]
  by (simp add: acme_dbName init_state_def users_of_def)

text \<open>
  The order that claim C9 states, with the admin principal written before the
  tenant-local user, is not the order of the code: for ``Acme Inc'' the user is inserted
  second and the admin principal third.
\<close>

theorem create_write_sequence_counterexample:
  "oplog (snd (createOrganization isEmail_example refuses_example 1000 ''salt1'' ''Acme Inc''
             ''admin@acme.com'' ''Secret123'' init_state))
     = [CreateIndex ''org_acme_inc'', InsertUser ''org_acme_inc'', InsertAdmin, InsertOrg,
        UpdateAdmin Set_organization_id]
   \<and> oplog (snd (createOrganization isEmail_example refuses_example 1000 ''salt1'' ''Acme Inc''
             ''admin@acme.com'' ''Secret123'' init_state))
     \<noteq> [CreateIndex ''org_acme_inc'', InsertAdmin, InsertUser ''org_acme_inc'', InsertOrg,
        UpdateAdmin Set_organization_id]"
  by (simp add: acme_created_state acme_state_value)

text \<open>
  Claim C7, as amended. When an organization with the name is registered, a second
  \<open>create\<close> with that name fails and leaves the whole state, the log of writes included,
  as it was. The error is the one for an existing organization whenever name, email and
  password pass the validation that comes first; otherwise it is the validation error.
\<close>

theorem duplicate_name_rejected:
  assumes "findOne (by_organization_name orgName) (organizations s) = Some org"
  shows "snd (createOrganization isEmail refuses now salt orgName email password s) = s
    \<and> fst (createOrganization isEmail refuses now salt orgName email password s) =
        (if orgName = [] \<or> email = [] \<or> password = [] then Inl Fields_required
         else if \<not> isEmail email then Inl Invalid_email_format
         else if length password < 6 then Inl Password_too_short
         else Inl Org_already_exists)"
  using assms by (simp add: createOrganization_def)

theorem duplicate_name_rejected_witness:
  "findOne (by_organization_name ''Acme Inc'') (organizations acme_state) =
     Some \<lparr>o_id = 2, o_organization_name = ''Acme Inc'', o_db_name = ''org_acme_inc'',
           o_admin_email = ''admin@acme.com'', o_admin_user_id = OidHex 0,
           o_created_at = 1000, o_is_active = True\<rparr>
   \<and> createOrganization isEmail_example refuses_example 2000 ''salt2'' ''Acme Inc'' ''other@acme.com''
        ''Secret999'' acme_state = (Inl Org_already_exists, acme_state)"
  using acme_find_org
    duplicate_name_rejected [OF acme_find_org, of isEmail_example refuses_example 2000
      "''salt2''"
      "''other@acme.com''" "''Secret999''"]
  by (simp add: isEmail_example_def prod_eq_iff)

text \<open>
  Claim C7 as stated, for any email and password, fails: with the password ``abc'' the
  second \<open>create\<close> of ``Acme Inc'' ends in the validation error for a short password.
\<close>

theorem duplicate_name_counterexample:
  "findOne (by_organization_name ''Acme Inc'')
     (organizations (snd (createOrganization isEmail_example refuses_example 1000 ''salt1'' ''Acme Inc''
        ''admin@acme.com'' ''Secret123'' init_state)))
     = Some \<lparr>o_id = 2, o_organization_name = ''Acme Inc'', o_db_name = ''org_acme_inc'',
           o_admin_email = ''admin@acme.com'', o_admin_user_id = OidHex 0,
           o_created_at = 1000, o_is_active = True\<rparr>
   \<and> fst (createOrganization isEmail_example refuses_example 2000 ''salt2'' ''Acme Inc'' ''other@acme.com'' ''abc''
        (snd (createOrganization isEmail_example refuses_example 1000 ''salt1'' ''Acme Inc''
           ''admin@acme.com'' ''Secret123'' init_state)))
     = Inl Password_too_short
   \<and> Password_too_short \<noteq> Org_already_exists"
  unfolding acme_created_state
  by (simp add: acme_find_org createOrganization_def isEmail_example_def)

section \<open>Login and refresh\<close>





lemma refresh_invalid_token:
  "\<not> valid_refresh_token secret now t \<Longrightarrow>
     refresh_outcome_of (fst (refreshAccessToken secret now adminId t s)) = InvalidRefreshToken"
  by (cases t) (simp_all add: refreshAccessToken_def valid_refresh_token_def)

lemma refresh_valid_token:
  "valid_refresh_token secret now t \<Longrightarrow>
     refreshAccessToken secret now adminId t s =
       (case ObjectId adminId of
          Inl e \<Rightarrow> (Inl (Token_refresh_failed e), s)
        | Inr oid \<Rightarrow>
            (case findOne (by_admin_id oid) (admin_users s) of
               None \<Rightarrow> (Inl (Token_refresh_failed Admin_not_found), s)
             | Some admin \<Rightarrow>
                 if a_refresh_token_hash admin \<noteq> Some (hashToken t)
                 then (Inl (Token_refresh_failed Refresh_token_mismatch), s)
                 else
                   (Inr \<lparr>rr_access_token = createAccessToken secret now (toString (a_id admin))
                           (a_organization_id admin) (a_organization_name admin) (a_role admin),
                         rr_token_type = ''bearer'', rr_expires_in = 15 * 60\<rparr>, s)))"
  by (cases t; clarsimp simp: refreshAccessToken_def valid_refresh_token_def)

lemma refresh_state: "snd (refreshAccessToken secret now adminId t s) = s"
  by (cases t; cases adminId)
     (simp_all add: refreshAccessToken_def ObjectId_def split: option.splits)

lemma refresh_by_principal:
  assumes "valid_refresh_token secret now t" and "principal_of adminId s = Some a"
  shows "fst (refreshAccessToken secret now adminId t s) =
     (if a_refresh_token_hash a \<noteq> Some (hashToken t)
      then Inl (Token_refresh_failed Refresh_token_mismatch)
      else Inr \<lparr>rr_access_token = createAccessToken secret now (toString (a_id a))
                  (a_organization_id a) (a_organization_name a) (a_role a),
                rr_token_type = ''bearer'', rr_expires_in = 15 * 60\<rparr>)"
proof (cases adminId)
  case (OidHex oid)
  with assms show ?thesis
    by (simp add: refresh_valid_token ObjectId_def principal_OidHex)
next
  case (NotOid x)
  with assms show ?thesis by (simp add: principal_NotOid)
qed



lemma acme_login_admins:
  "admin_users (snd acme_login) =
     [\<lparr>a_id = 1, a_admin_email = ''admin@acme.com'',
       a_password = hashPassword ''salt1'' ''Secret123'', a_role = ''org_admin'',
       a_organization_id = Some (OidHex 2), a_organization_name = Some ''Acme Inc'',
       a_created_at = 1000, a_is_active = True,
       a_refresh_token_hash = Some (hashToken acme_refresh_token),
       a_refresh_token_issued_at = Some 5000\<rparr>]"
  by (simp add: acme_login_def adminLogin_def verifyPassword_hashPassword acme_state_value by_admin_email_def Let_def
      toString_def acme_refresh_token_def admin_updateOne_def send_def by_admin_id_def
      set_refresh_token_def)



lemma acme_refresh_token_valid: "valid_refresh_token jwtSecret_default 9000 acme_refresh_token"
  by (simp add: valid_refresh_token_def acme_refresh_token_def createRefreshToken_def)

lemma acme_refresh_value:
  "refreshAccessToken jwtSecret_default 9000 (OidHex 1) acme_refresh_token (snd acme_login) =
     (Inr \<lparr>rr_access_token = createAccessToken jwtSecret_default 9000 (OidHex 1)
              (Some (OidHex 2)) (Some ''Acme Inc'') ''org_admin'',
            rr_token_type = ''bearer'', rr_expires_in = 900\<rparr>, snd acme_login)"
  by (simp add: refresh_valid_token [OF acme_refresh_token_valid] ObjectId_def
      acme_login_admins by_admin_id_def toString_def)

text \<open>
  Claim C2, as amended. For every non-empty email and non-empty password: if no admin
  principal has the email, or one has it and the password fails verification against
  its stored hash, login fails with the error for invalid credentials; the outcome is
  the same value in both cases and the state is unchanged.
\<close>

theorem login_failure_uniform:
  assumes "email \<noteq> []" and "password \<noteq> []"
    and "case findOne (by_admin_email email) (admin_users s) of
           None \<Rightarrow> True | Some a \<Rightarrow> \<not> verifyPassword password (a_password a)"
  shows "adminLogin secret now email password s = (Inl Invalid_credentials, s)"
  using assms by (simp add: adminLogin_def split: option.splits)

theorem login_failure_uniform_witness:
  "adminLogin jwtSecret_default 2000 ''nobody@acme.com'' ''Secret123'' acme_state
     = (Inl Invalid_credentials, acme_state)
   \<and> adminLogin jwtSecret_default 2000 ''admin@acme.com'' ''Secret124'' acme_state
     = (Inl Invalid_credentials, acme_state)"
proof -
  have a: "case findOne (by_admin_email ''nobody@acme.com'') (admin_users acme_state) of
             None \<Rightarrow> True | Some a \<Rightarrow> \<not> verifyPassword ''Secret123'' (a_password a)"
    by (simp add: acme_state_value by_admin_email_def verifyPassword_hashPassword
        acme_wrong_passwords)
  have b: "case findOne (by_admin_email ''admin@acme.com'') (admin_users acme_state) of
             None \<Rightarrow> True | Some a \<Rightarrow> \<not> verifyPassword ''Secret124'' (a_password a)"
    by (simp add: acme_state_value by_admin_email_def verifyPassword_hashPassword
        acme_wrong_passwords)
  show ?thesis
    using login_failure_uniform [OF _ _ a, of jwtSecret_default 2000]
      login_failure_uniform [OF _ _ b, of jwtSecret_default 2000]
    by simp
qed

text \<open>With an empty email or an empty password, login ends in the error for missing
  input whatever the store holds.\<close>

lemma login_requires_credentials:
  "email = [] \<or> password = [] \<Longrightarrow>
     adminLogin secret now email password s = (Inl Credentials_required, s)"
  by (simp add: adminLogin_def)

text \<open>
  Claim C2 as stated, for every email and password, fails: no principal has the empty
  email, and login with it ends in the error for missing input.
\<close>

theorem login_empty_email_counterexample:
  "findOne (by_admin_email []) (admin_users init_state) = None
   \<and> adminLogin jwtSecret_default 2000 [] ''Secret123'' init_state
       = (Inl Credentials_required, init_state)
   \<and> Credentials_required \<noteq> Invalid_credentials"
  by (simp add: adminLogin_def init_state_def)

text \<open>
  Claim C5. A successful \<open>refresh\<close> returns a new access token and nothing else (the
  token, its type and its lifetime), and leaves the state as it was: the principal's
  record, with the fingerprint that matched the presented token and its time of issue,
  is not written.
\<close>

theorem refresh_leaves_store_unchanged:
  assumes "refreshAccessToken secret now adminId refreshToken s = (Inr r, s')"
  shows "s' = s
    \<and> (case principal_of adminId s of None \<Rightarrow> False
        | Some a \<Rightarrow>
            a_refresh_token_hash a = Some (hashToken refreshToken)
            \<and> r = \<lparr>rr_access_token = createAccessToken secret now (toString (a_id a))
                       (a_organization_id a) (a_organization_name a) (a_role a),
                    rr_token_type = ''bearer'', rr_expires_in = 900\<rparr>)"
proof -
  from assms have "snd (refreshAccessToken secret now adminId refreshToken s) = s'" by simp
  then have st: "s' = s" by (simp add: refresh_state)
  have v: "valid_refresh_token secret now refreshToken"
  proof (rule ccontr)
    assume "\<not> valid_refresh_token secret now refreshToken"
    then have "refresh_outcome_of (fst (refreshAccessToken secret now adminId refreshToken s))
       = InvalidRefreshToken" by (rule refresh_invalid_token)
    with assms show False by simp
  qed
  show ?thesis
  proof (cases "principal_of adminId s")
    case None
    have "fst (refreshAccessToken secret now adminId refreshToken s) \<noteq> Inr r"
    proof (cases adminId)
      case (OidHex oid)
      with None show ?thesis
        by (simp add: refresh_valid_token [OF v] ObjectId_def principal_OidHex)
    next
      case (NotOid x)
      then show ?thesis by (simp add: refresh_valid_token [OF v] ObjectId_def)
    qed
    with assms show ?thesis by simp
  next
    case (Some a)
    from assms have "fst (refreshAccessToken secret now adminId refreshToken s) = Inr r"
      by simp
    then show ?thesis
      using st by (simp add: Some refresh_by_principal [OF v Some] split: if_splits)
  qed
qed

theorem refresh_leaves_store_unchanged_witness:
  "refreshAccessToken jwtSecret_default 9000 (OidHex 1) acme_refresh_token (snd acme_login) =
     (Inr \<lparr>rr_access_token = createAccessToken jwtSecret_default 9000 (OidHex 1)
              (Some (OidHex 2)) (Some ''Acme Inc'') ''org_admin'',
            rr_token_type = ''bearer'', rr_expires_in = 900\<rparr>, snd acme_login)
   \<and> stored_fingerprint (OidHex 1) (snd acme_login) = Some (hashToken acme_refresh_token)"
  using acme_refresh_value refresh_leaves_store_unchanged [OF acme_refresh_value]
  by (simp add: stored_fingerprint_def split: option.splits)

text \<open>
  Claim C4, as amended. \<open>refresh\<close> fails with the error for an invalid refresh token when
  the presented token has a bad signature, is expired or lacks the refresh type marker;
  otherwise it fails with the error of \<^verbatim>\<open>new ObjectId\<close> when the given id is no ObjectId
  string; otherwise with the error for a missing admin when no principal has the id;
  otherwise with the mismatch error when the token's fingerprint differs from the stored
  one; and it succeeds otherwise. In every case the state is unchanged.
\<close>

theorem refresh_outcomes:
  "refresh_outcome_of (fst (refreshAccessToken secret now adminId refreshToken s))
     = refresh_spec_amended secret now adminId refreshToken s
   \<and> snd (refreshAccessToken secret now adminId refreshToken s) = s"
proof (cases "valid_refresh_token secret now refreshToken")
  case False
  then show ?thesis
    by (simp add: refresh_invalid_token refresh_state refresh_spec_amended_def)
next
  case True
  show ?thesis
  proof (cases adminId)
    case (OidHex oid)
    with True show ?thesis
      by (simp add: refresh_valid_token refresh_state refresh_spec_amended_def refresh_spec_def
          ObjectId_def principal_OidHex split: option.splits)
  next
    case (NotOid x)
    with True show ?thesis
      by (simp add: refresh_valid_token refresh_state refresh_spec_amended_def ObjectId_def)
  qed
qed

theorem refresh_outcomes_witness:
  "refresh_outcome_of (fst (refreshAccessToken jwtSecret_default 9000 (OidHex 9)
       acme_refresh_token (snd acme_login))) = NotFound
   \<and> refresh_outcome_of (fst (refreshAccessToken jwtSecret_default 9000 (OidHex 1)
       acme_refresh_token (snd acme_login))) = Succeeds
   \<and> refresh_outcome_of (fst (refreshAccessToken jwtSecret_default 9000 (OidHex 1)
       (createAccessToken jwtSecret_default 5000 (OidHex 1) (Some (OidHex 2))
          (Some ''Acme Inc'') ''org_admin'') (snd acme_login))) = InvalidRefreshToken"
proof -
  have s9: "refresh_spec_amended jwtSecret_default 9000 (OidHex 9) acme_refresh_token
      (snd acme_login) = NotFound"
    by (simp add: refresh_spec_amended_def refresh_spec_def acme_refresh_token_valid
        principal_OidHex acme_login_admins by_admin_id_def)
  have s1: "refresh_spec_amended jwtSecret_default 9000 (OidHex 1) acme_refresh_token
      (snd acme_login) = Succeeds"
    by (simp add: refresh_spec_amended_def refresh_spec_def acme_refresh_token_valid
        principal_OidHex acme_login_admins by_admin_id_def)
  have sa: "refresh_spec_amended jwtSecret_default 9000 (OidHex 1)
      (createAccessToken jwtSecret_default 5000 (OidHex 1) (Some (OidHex 2))
          (Some ''Acme Inc'') ''org_admin'') (snd acme_login) = InvalidRefreshToken"
    by (simp add: refresh_spec_amended_def valid_refresh_token_def createAccessToken_def)
  from refresh_outcomes [of jwtSecret_default 9000 "OidHex 9" acme_refresh_token
        "snd acme_login"]
  have a: "refresh_outcome_of (fst (refreshAccessToken jwtSecret_default 9000 (OidHex 9)
       acme_refresh_token (snd acme_login))) = NotFound"
    by (simp only: s9)
  from refresh_outcomes [of jwtSecret_default 9000 "OidHex 1" acme_refresh_token
        "snd acme_login"]
  have b: "refresh_outcome_of (fst (refreshAccessToken jwtSecret_default 9000 (OidHex 1)
       acme_refresh_token (snd acme_login))) = Succeeds"
    by (simp only: s1)
  from refresh_outcomes [of jwtSecret_default 9000 "OidHex 1"
        "createAccessToken jwtSecret_default 5000 (OidHex 1) (Some (OidHex 2))
          (Some ''Acme Inc'') ''org_admin''" "snd acme_login"]
  have c: "refresh_outcome_of (fst (refreshAccessToken jwtSecret_default 9000 (OidHex 1)
       (createAccessToken jwtSecret_default 5000 (OidHex 1) (Some (OidHex 2))
          (Some ''Acme Inc'') ''org_admin'') (snd acme_login))) = InvalidRefreshToken"
    by (simp only: sa)
  from a b c show ?thesis by (intro conjI)
qed

text \<open>
  Claim C4 as stated fails for an id that is no ObjectId string: no principal has the id
  ``xyz'', so the specification's table says not found, but the code fails in
  \<^verbatim>\<open>new ObjectId\<close> before it looks a principal up.
\<close>

theorem refresh_malformed_id_counterexample:
  "refresh_spec jwtSecret_default 2000 (NotOid ''xyz'')
      (createRefreshToken jwtSecret_default 1000 (OidHex 1) None) init_state = NotFound
   \<and> fst (refreshAccessToken jwtSecret_default 2000 (NotOid ''xyz'')
      (createRefreshToken jwtSecret_default 1000 (OidHex 1) None) init_state)
     = Inl (Token_refresh_failed Invalid_object_id)
   \<and> refresh_outcome_of (Inl (Token_refresh_failed Invalid_object_id)) \<noteq> NotFound"
  by (simp add: refresh_spec_def valid_refresh_token_def createRefreshToken_def principal_NotOid
      refreshAccessToken_def ObjectId_def)






section \<open>Deleting and updating an organization\<close>

lemma deleteOrganization_found:
  assumes "orgName \<noteq> []"
    and "findOne (by_organization_name orgName) (organizations s) = Some org"
    and "\<not> db_name_refused refuses (dbNameFor orgName)"
  shows "deleteOrganization refuses orgName adminId s =
    (Inr \<lparr>ch_message = ''Organization deleted successfully'', ch_organization_name = orgName\<rparr>,
     s\<lparr>organizations := deleteOne (by_organization_name orgName) (organizations s),
       admin_users := deleteOne (by_organization_id (toString (o_id org))) (admin_users s),
       org_dbs := AList.delete (dbNameFor orgName) (org_dbs s),
       oplog := oplog s @ [DeleteOrg, DeleteAdmin, DropDatabase (dbNameFor orgName)]\<rparr>)"
  using assms
  by (simp add: deleteOrganization_def Let_def orgs_deleteOne_def admin_deleteOne_def
      deleteOrgDatabase_def send_def)

lemma deleteOrganization_found_refused:
  assumes "orgName \<noteq> []"
    and "findOne (by_organization_name orgName) (organizations s) = Some org"
    and "db_name_refused refuses (dbNameFor orgName)"
  shows "deleteOrganization refuses orgName adminId s =
    (Inl (Failed_to_delete Invalid_db_name),
     s\<lparr>organizations := deleteOne (by_organization_name orgName) (organizations s),
       admin_users := deleteOne (by_organization_id (toString (o_id org))) (admin_users s),
       oplog := oplog s @ [DeleteOrg, DeleteAdmin]\<rparr>)"
  using assms
  by (simp add: deleteOrganization_def Let_def orgs_deleteOne_def admin_deleteOne_def
      deleteOrgDatabase_def send_def)

lemma deleteOrganization_absent:
  assumes "orgName \<noteq> []"
    and "findOne (by_organization_name orgName) (organizations s) = None"
  shows "deleteOrganization refuses orgName adminId s = (Inl Org_not_found, s)"
  using assms by (simp add: deleteOrganization_def)

lemma getOrganization_absent:
  assumes "orgName \<noteq> []"
    and "findOne (by_organization_name orgName) (organizations s) = None"
  shows "getOrganization orgName s = (Inl Org_not_found, s)"
  using assms by (simp add: getOrganization_def)

text \<open>The uniqueness of organization names holds in the empty store and is kept by
  every operation.\<close>

lemma names_unique_init: "names_unique init_state"
  by (simp add: names_unique_def init_state_def)

lemma organizations_after_create:
  "organizations (snd (createOrganization isEmail refuses now salt orgName email password s)) =
     organizations s
   \<or> (o_organization_name ` set (organizations s)) \<inter> {orgName} = {}
      \<and> \<not> db_name_refused refuses (dbNameFor orgName)
      \<and> (\<exists>d. o_organization_name d = orgName
           \<and> organizations
                (snd (createOrganization isEmail refuses now salt orgName email password s)) =
               organizations s @ [d])"
  unfolding createOrganization_def createOrgDatabase_def users_insertOne_def admin_insertOne_def
    orgs_insertOne_def admin_updateOne_def send_def Let_def
  by (auto split: if_splits prod.splits sum.splits simp: new_org_def)

lemma names_unique_create:
  assumes "names_unique s"
  shows "names_unique
    (snd (createOrganization isEmail refuses now salt orgName email password s))"
  using organizations_after_create [of isEmail refuses now salt orgName email password s] assms
  by (auto simp: names_unique_def)

lemma names_unique_delete:
  "names_unique s \<Longrightarrow> names_unique (snd (deleteOrganization refuses orgName adminId s))"
  by (auto simp: names_unique_def deleteOrganization_def Let_def orgs_deleteOne_def
      admin_deleteOne_def deleteOrgDatabase_def send_def distinct_map_deleteOne
      split: option.splits)

text \<open>No organization that \<open>createOrganization\<close> registers has a database name that is
  refused, and the operations keep it so.\<close>

lemma db_names_accepted_init: "db_names_accepted refuses init_state"
  by (simp add: db_names_accepted_def init_state_def)

lemma db_names_accepted_create:
  assumes "db_names_accepted refuses s"
  shows "db_names_accepted refuses
    (snd (createOrganization isEmail refuses now salt orgName email password s))"
  using organizations_after_create [of isEmail refuses now salt orgName email password s] assms
  by (auto simp: db_names_accepted_def db_name_accepted_def)

lemma list_all_deleteOne: "list_all Q xs \<Longrightarrow> list_all Q (deleteOne P xs)"
  by (induction xs) auto

lemma db_names_accepted_delete:
  "db_names_accepted refuses s \<Longrightarrow>
     db_names_accepted refuses (snd (deleteOrganization refuses' orgName adminId s))"
  by (auto simp: db_names_accepted_def deleteOrganization_def Let_def orgs_deleteOne_def
      admin_deleteOne_def deleteOrgDatabase_def send_def list_all_deleteOne
      split: option.splits)

lemma db_names_accepted_found:
  assumes "db_names_accepted refuses s"
    and "findOne (by_organization_name orgName) (organizations s) = Some org"
  shows "\<not> db_name_refused refuses (dbNameFor orgName)"
proof -
  from assms(2) have "org \<in> set (organizations s)" and "o_organization_name org = orgName"
    by (auto dest: findOne_SomeD simp: by_organization_name_def)
  with assms(1) show ?thesis
    by (auto simp: db_names_accepted_def db_name_accepted_def list_all_iff)
qed

lemma organizations_after_login:
  "organizations (snd (adminLogin secret now email password s)) = organizations s"
  by (simp add: adminLogin_def Let_def admin_updateOne_def send_def split: option.splits)

lemma organizations_after_update:
  "organizations (snd (updateOrganization isEmail refuses now salt orgName email password s))
     = organizations s"
  by (simp add: updateOrganization_def Let_def admin_updateOne_email_def admin_updateOne_def
      users_updateOne_email_def send_def getOrgDb_def split: option.splits)

text \<open>
  Claim C8, as amended. For a non-empty name and a registry with unique names:
  \<open>delete\<close> fails with the error for a missing organization when none is registered
  under the name; otherwise it sends the deletion of the registry record, then the
  deletion of the admin principal, then the drop of the tenant database, in that order,
  and succeeds, and afterwards both \<open>get\<close> and a repeated \<open>delete\<close> on the name fail with
  the error for a missing organization. Only when the name of the tenant database is one
  that is refused, which is the case for no organization that \<open>create\<close> has registered,
  does the drop fail, after the two deletions, and \<open>delete\<close> with it.
\<close>

theorem delete_sequence_then_not_found:
  assumes "orgName \<noteq> []" and "names_unique s"
  shows "case findOne (by_organization_name orgName) (organizations s) of
      None \<Rightarrow> deleteOrganization refuses orgName adminId s = (Inl Org_not_found, s)
    | Some org \<Rightarrow>
        organizations (snd (deleteOrganization refuses orgName adminId s)) =
            deleteOne (by_organization_name orgName) (organizations s)
        \<and> admin_users (snd (deleteOrganization refuses orgName adminId s)) =
            deleteOne (by_organization_id (toString (o_id org))) (admin_users s)
        \<and> fst (getOrganization orgName (snd (deleteOrganization refuses orgName adminId s))) =
            Inl Org_not_found
        \<and> fst (deleteOrganization refuses orgName adminId'
                 (snd (deleteOrganization refuses orgName adminId s))) = Inl Org_not_found
        \<and> (if db_name_refused refuses (dbNameFor orgName)
           then fst (deleteOrganization refuses orgName adminId s) =
                  Inl (Failed_to_delete Invalid_db_name)
                \<and> oplog (snd (deleteOrganization refuses orgName adminId s)) =
                  oplog s @ [DeleteOrg, DeleteAdmin]
           else fst (deleteOrganization refuses orgName adminId s) =
                  Inr \<lparr>ch_message = ''Organization deleted successfully'',
                       ch_organization_name = orgName\<rparr>
                \<and> oplog (snd (deleteOrganization refuses orgName adminId s)) =
                  oplog s @ [DeleteOrg, DeleteAdmin, DropDatabase (dbNameFor orgName)]
                \<and> map_of (org_dbs (snd (deleteOrganization refuses orgName adminId s)))
                    (dbNameFor orgName) = None)"
proof (cases "findOne (by_organization_name orgName) (organizations s)")
  case None
  with assms(1) show ?thesis by (simp add: deleteOrganization_absent)
next
  case (Some org)
  let ?s' = "snd (deleteOrganization refuses orgName adminId s)"
  have docs: "organizations ?s' = deleteOne (by_organization_name orgName) (organizations s)
      \<and> admin_users ?s' = deleteOne (by_organization_id (toString (o_id org))) (admin_users s)"
    by (cases "db_name_refused refuses (dbNameFor orgName)")
       (simp_all add: deleteOrganization_found [OF assms(1) Some]
          deleteOrganization_found_refused [OF assms(1) Some])
  have "findOne (by_organization_name orgName)
      (deleteOne (by_organization_name orgName) (organizations s)) = None"
    using assms(2) unfolding names_unique_def by_organization_name_eq
    by (rule findOne_deleteOne_unique)
  then have gone: "findOne (by_organization_name orgName) (organizations ?s') = None"
    by (simp add: docs)
  have g: "fst (getOrganization orgName ?s') = Inl Org_not_found"
    by (simp add: getOrganization_absent [OF assms(1) gone])
  have r: "fst (deleteOrganization refuses orgName adminId' ?s') = Inl Org_not_found"
    by (simp add: deleteOrganization_absent [OF assms(1) gone])
  have e: "if db_name_refused refuses (dbNameFor orgName)
           then fst (deleteOrganization refuses orgName adminId s) =
                  Inl (Failed_to_delete Invalid_db_name)
                \<and> oplog ?s' = oplog s @ [DeleteOrg, DeleteAdmin]
           else fst (deleteOrganization refuses orgName adminId s) =
                  Inr \<lparr>ch_message = ''Organization deleted successfully'',
                       ch_organization_name = orgName\<rparr>
                \<and> oplog ?s' = oplog s @ [DeleteOrg, DeleteAdmin, DropDatabase (dbNameFor orgName)]
                \<and> map_of (org_dbs ?s') (dbNameFor orgName) = None"
    by (cases "db_name_refused refuses (dbNameFor orgName)")
       (simp_all add: deleteOrganization_found [OF assms(1) Some]
          deleteOrganization_found_refused [OF assms(1) Some] delete_conv')
  from docs g r e show ?thesis
    by (simp only: Some option.case)
qed

theorem delete_sequence_then_not_found_witness:
  "names_unique acme_state
   \<and> deleteOrganization refuses_example ''Globex'' (OidHex 1) acme_state = (Inl Org_not_found, acme_state)
   \<and> fst (deleteOrganization refuses_example ''Acme Inc'' (OidHex 1) acme_state) =
       Inr \<lparr>ch_message = ''Organization deleted successfully'',
            ch_organization_name = ''Acme Inc''\<rparr>
   \<and> oplog (snd (deleteOrganization refuses_example ''Acme Inc'' (OidHex 1) acme_state)) =
       oplog acme_state @ [DeleteOrg, DeleteAdmin, DropDatabase ''org_acme_inc'']
   \<and> fst (getOrganization ''Acme Inc''
            (snd (deleteOrganization refuses_example ''Acme Inc'' (OidHex 1) acme_state))) = Inl Org_not_found
   \<and> fst (deleteOrganization refuses_example ''Acme Inc'' (OidHex 7)
            (snd (deleteOrganization refuses_example ''Acme Inc'' (OidHex 1) acme_state))) = Inl Org_not_found"
proof -
  have u: "names_unique acme_state"
    by (simp add: names_unique_def acme_state_value)
  have n1: "''Acme Inc'' \<noteq> []" and n2: "''Globex'' \<noteq> []" by simp_all
  have f: "findOne (by_organization_name ''Globex'') (organizations acme_state) = None"
    by (simp add: acme_state_value by_organization_name_def)
  show ?thesis
    using u delete_sequence_then_not_found [OF n1 u, of refuses_example "OidHex 1" "OidHex 7"]
      delete_sequence_then_not_found [OF n2 u, of refuses_example "OidHex 1"]
    by (simp add: acme_find_org f acme_dbName db_name_refused_def refuses_example_def)
qed

text \<open>With the empty name, \<open>delete\<close> ends in the error for a missing name whatever the
  store holds.\<close>

lemma delete_requires_name:
  "deleteOrganization refuses [] adminId s = (Inl Org_name_required, s)"
  by (simp add: deleteOrganization_def)

text \<open>
  Claim C8 as stated fails for the empty name: no organization is registered under it,
  and \<open>delete\<close> ends in the error for a missing name.
\<close>

theorem delete_empty_name_counterexample:
  "findOne (by_organization_name []) (organizations init_state) = None
   \<and> deleteOrganization refuses_example [] (OidHex 1) init_state = (Inl Org_name_required, init_state)
   \<and> Org_name_required \<noteq> Org_not_found"
  by (simp add: deleteOrganization_def init_state_def)

text \<open>
  Claim C10. The outcome of \<open>deleteOrganization\<close> does not depend on the id of the
  requesting principal: for any two ids, result and state are the same. The operation
  ends in one of four ways, the error for a missing name, the error for a missing
  organization, the failure of the drop for a refused database name, or success; none
  of them is a refusal for lack of rights.
\<close>

theorem delete_ignores_requesting_principal:
  "deleteOrganization refuses orgName adminId1 s = deleteOrganization refuses orgName adminId2 s
   \<and> fst (deleteOrganization refuses orgName adminId1 s) \<in>
        {Inl Org_name_required, Inl Org_not_found, Inl (Failed_to_delete Invalid_db_name),
         Inr \<lparr>ch_message = ''Organization deleted successfully'', ch_organization_name = orgName\<rparr>}"
  by (simp add: deleteOrganization_def Let_def deleteOrgDatabase_def split: option.splits)

text \<open>
  Claim C6 does not hold of the code. \<open>updateOrganization\<close> looks for the tenant-local
  user with the role \<^verbatim>\<open>admin\<close>, but \<open>createOrganization\<close> stores that user with the role
  \<^verbatim>\<open>org_admin\<close>. After ``Acme Inc'' is created and then updated, the admin principal
  has the new email and the new hash, and the tenant-local user still has the old ones.
\<close>

theorem update_misses_tenant_mirror:
  "fst acme_updated =
     Inr \<lparr>ch_message = ''Organization updated successfully'', ch_organization_name = ''Acme Inc''\<rparr>
   \<and> admin_users (snd acme_updated) =
       [\<lparr>a_id = 1, a_admin_email = ''new@acme.com'',
         a_password = hashPassword ''salt2'' ''NewSecret456'', a_role = ''org_admin'',
         a_organization_id = Some (OidHex 2), a_organization_name = Some ''Acme Inc'',
         a_created_at = 1000, a_is_active = True, a_refresh_token_hash = None,
         a_refresh_token_issued_at = None\<rparr>]
   \<and> users_of (snd acme_updated) ''org_acme_inc'' =
       [\<lparr>u_id = 0, u_email = ''admin@acme.com'', u_password = hashPassword ''salt1'' ''Secret123'',
         u_role = ''org_admin'', u_created_at = 1000, u_is_active = True,
         u_updated_at = None\<rparr>]
   \<and> oplog (snd acme_updated) = oplog acme_state @
       [UpdateAdmin Set_credentials, UpdateUser ''org_acme_inc'']"
  by (simp add: acme_updated_def updateOrganization_def acme_state_value acme_dbName store_defs)

text \<open>In general the update leaves every tenant database as it was unless one of its
  users has the role \<^verbatim>\<open>admin\<close>, which no user written by \<open>createOrganization\<close> has.\<close>

lemma update_needs_admin_role:
  assumes "\<forall>u \<in> set (users_of s (dbNameFor orgName)). u_role u \<noteq> ''admin''"
  shows "org_dbs (snd (updateOrganization isEmail refuses now salt orgName email password s))
    = org_dbs s"
proof -
  have n: "findOne (by_user_role ''admin'') (users_of s (dbNameFor orgName)) = None"
    using assms by (simp add: findOne_None_iff by_user_role_def)
  show ?thesis
    by (simp add: updateOrganization_def Let_def admin_updateOne_email_def admin_updateOne_def
        users_updateOne_email_def send_def getOrgDb_def users_of_def n [unfolded users_of_def]
        split: option.splits)
qed

text \<open>The login half of claim C6 holds of the admin principal: after the update, login
  with the new email succeeds with the new password and fails with the old one.\<close>

lemma login_after_update:
  "fst (adminLogin jwtSecret_default 4000 ''new@acme.com'' ''Secret123'' (snd acme_updated))
     = Inl Invalid_credentials
   \<and> fst (adminLogin jwtSecret_default 4000 ''admin@acme.com'' ''Secret123'' (snd acme_updated))
     = Inl Invalid_credentials
   \<and> fst (adminLogin jwtSecret_default 4000 ''new@acme.com'' ''NewSecret456''
        (snd acme_updated)) =
     Inr \<lparr>lr_access_token = createAccessToken jwtSecret_default 4000 (OidHex 1)
              (Some (OidHex 2)) (Some ''Acme Inc'') ''org_admin'',
            lr_refresh_token =
              createRefreshToken jwtSecret_default 4000 (OidHex 1) (Some (OidHex 2)),
            lr_token_type = ''bearer'', lr_expires_in = 900, lr_admin_id = OidHex 1,
            lr_organization_id = Some (OidHex 2), lr_organization_name = Some ''Acme Inc''\<rparr>"
proof -
  have a: "admin_users (snd acme_updated) =
       [\<lparr>a_id = 1, a_admin_email = ''new@acme.com'',
         a_password = hashPassword ''salt2'' ''NewSecret456'', a_role = ''org_admin'',
         a_organization_id = Some (OidHex 2), a_organization_name = Some ''Acme Inc'',
         a_created_at = 1000, a_is_active = True, a_refresh_token_hash = None,
         a_refresh_token_issued_at = None\<rparr>]"
    by (simp add: acme_updated_def updateOrganization_def acme_state_value acme_dbName
        store_defs)
  show ?thesis
    by (simp add: adminLogin_def verifyPassword_hashPassword a by_admin_email_def Let_def toString_def
        acme_wrong_passwords)
qed

end
